theory Spec2Isabelle
  imports Complex_Main
begin

section \<open>JSON values as the handler sees them\<close>

text \<open>
  The edge function \<^verbatim>\<open>extract-shipment-data\<close> works on the value that
  \<^verbatim>\<open>JSON.parse\<close> returns for the model's answer. Such a value is \<^verbatim>\<open>null\<close>, a
  boolean, a number, a string, an array or an object. A number is the rational value of the
  double: the two zeros of a double are one value here, and both are falsy in JavaScript. An
  object is the list of its key/value pairs; \<^verbatim>\<open>JSON.parse\<close> returns objects whose
  keys are distinct.
\<close>

datatype json =
    JNull
  | JBool bool
  | JNum rat
  | JStr string
  | JArr "json list"
  | JObj "(string \<times> json) list"



text \<open>
  A JavaScript value is a JSON value or \<^verbatim>\<open>undefined\<close>, which is what reading a
  property that is not there gives.
\<close>

type_synonym js_value = "json option"

abbreviation js_undefined :: js_value where
  "js_undefined \<equiv> None"

abbreviation js_null :: js_value where
  "js_null \<equiv> Some JNull"

text \<open>
  \<^verbatim>\<open>extractedData.k\<close> for the keys the handler reads (\<^verbatim>\<open>customer_name\<close>,
  \<^verbatim>\<open>address\<close>, \<^verbatim>\<open>tracking_id\<close>, \<^verbatim>\<open>delivery_date\<close>,
  \<^verbatim>\<open>package_weight\<close>, \<^verbatim>\<open>notes\<close>), on a value other than
  \<^verbatim>\<open>null\<close>: an object gives the value stored under the key, and a boolean, a
  number, a string or an array has no property of these names. Reading a property of
  \<^verbatim>\<open>null\<close> throws a TypeError; the handler's first read is on line 118 and is
  modelled there.
\<close>

fun js_get :: "json \<Rightarrow> string \<Rightarrow> js_value" where
  "js_get (JObj kvs) k = map_of kvs k"
| "js_get _ k = js_undefined"

text \<open>JavaScript's truthiness, which \<^verbatim>\<open>!x\<close> and \<^verbatim>\<open>x || y\<close> test.\<close>

fun truthy :: "js_value \<Rightarrow> bool" where
  "truthy None = False"
| "truthy (Some JNull) = False"
| "truthy (Some (JBool b)) = b"
| "truthy (Some (JNum n)) = (n \<noteq> 0)"
| "truthy (Some (JStr s)) = (s \<noteq> [])"
| "truthy (Some (JArr xs)) = True"
| "truthy (Some (JObj kvs)) = True"

text \<open>\<^verbatim>\<open>a || b\<close>\<close>

definition js_or :: "js_value \<Rightarrow> js_value \<Rightarrow> js_value" where
  "js_or a b = (if truthy a then a else b)"

section \<open>Decimal rendering of a number in a template string\<close>

definition digit_char :: "nat \<Rightarrow> char" where
  "digit_char d =
     (if d = 0 then CHR ''0'' else if d = 1 then CHR ''1'' else if d = 2 then CHR ''2''
      else if d = 3 then CHR ''3'' else if d = 4 then CHR ''4'' else if d = 5 then CHR ''5''
      else if d = 6 then CHR ''6'' else if d = 7 then CHR ''7'' else if d = 8 then CHR ''8''
      else CHR ''9'')"

fun show_nat :: "nat \<Rightarrow> string" where
  "show_nat n = (if n < 10 then [digit_char n] else show_nat (n div 10) @ [digit_char (n mod 10)])"

declare show_nat.simps [simp del]

section \<open>Text that is looked into\<close>

text \<open>
  A JavaScript string is a sequence of UTF-16 code units, each given here by its number. The
  pasted or uploaded text is such a sequence; \<open>ascii\<close> writes one from ASCII characters.
\<close>

type_synonym js_string = "nat list"

definition ascii :: "string \<Rightarrow> js_string" where
  "ascii s = map of_char s"

section \<open>The record store\<close>

text \<open>
  Table \<^verbatim>\<open>parsing_logs\<close>: one row per extraction attempt. The store assigns the id.
  Absent columns are \<open>None\<close> (SQL NULL).
\<close>

datatype log_status = Processing | Success | Failed

record parsing_log =
  log_id :: nat
  file_name :: string
  file_url :: "string option"
  log_status :: log_status
  error_message :: "string option"
  extracted_data :: "json option"

text \<open>
  Table \<^verbatim>\<open>shipment_orders\<close>: the row the handler inserts, with the values as the
  handler passes them, and the stored record, which is the row with the id the store assigned.
\<close>

record shipment_row =
  customer_name :: js_value
  address :: js_value
  tracking_id :: js_value
  delivery_date :: js_value
  package_weight :: js_value
  "notes" :: js_value
  original_file_url :: "string option"
  original_file_name :: string
  parsed_by_ai :: bool
  status :: string

record shipment_order =
  shipment_id :: nat
  row :: shipment_row

record store =
  logs :: "parsing_log list"
  next_log_id :: nat
  shipments :: "shipment_order list"
  next_shipment_id :: nat

definition empty_store :: store where
  "empty_store = \<lparr>logs = [], next_log_id = 0, shipments = [], next_shipment_id = 0\<rparr>"

text \<open>
  The id is the table's primary key and the store generates it: the ids of the stored attempts
  are below the next id the store hands out, so a new attempt's id is on no other row.
\<close>

definition fresh_ids :: "store \<Rightarrow> bool" where
  "fresh_ids s = list_all (\<lambda>l. log_id l < next_log_id s) (logs s)"

section \<open>What the outside world answers during one call\<close>

text \<open>
  The request body is \<^verbatim>\<open>{fileContent, fileName, fileUrl}\<close>; the client sends
  \<^verbatim>\<open>null\<close> (\<open>None\<close>) for a missing file reference.
\<close>

record request =
  fileContent :: js_string
  fileName :: string
  fileUrl :: "string option"

text \<open>
  The outbound call either rejects (no response at all) or resolves to a response with
  a status code; when the status is a success status, the body is a completion object whose first
  choice's message content is a string.
\<close>

datatype upstream = FetchRejected string | Response nat string

text \<open>\<^verbatim>\<open>response.ok\<close> of the Fetch API: the status is in the range 200 to 299.\<close>

definition response_ok :: "nat \<Rightarrow> bool" where
  "response_ok st = (200 \<le> st \<and> st \<le> 299)"

text \<open>
  An insert into either table may be rejected by the store with a message; the handler tests
  both results. \<^verbatim>\<open>JSON.parse\<close> is a parameter: \<open>None\<close> is the SyntaxError
  it throws. \<open>read_back c v\<close> is what the select after an accepted shipment insert returns
  in column \<open>c\<close> when the handler passed the value \<open>v\<close>: the value as it went on
  the wire and as the column's type holds it (a weight rounded to two decimals by
  \<^verbatim>\<open>decimal(10,2)\<close>, a date as the \<^verbatim>\<open>date\<close> column renders it, a number
  put into a \<^verbatim>\<open>text\<close> column as its text).
\<close>

record env =
  log_insert_error :: "string option"
  openai :: upstream
  JSON_parse :: "string \<Rightarrow> json option"
  shipment_insert_error :: "string option"
  read_back :: "string \<Rightarrow> json \<Rightarrow> json"

text \<open>The operations the handler issues, in order.\<close>

datatype op = InsertLog | Fetch | UpdateLog nat | InsertShipment

text \<open>\<^verbatim>\<open>supabase.from('parsing_logs').insert({...}).select().single()\<close>\<close>

definition insert_log :: "env \<Rightarrow> request \<Rightarrow> store \<Rightarrow> (string + parsing_log) \<times> store" where
  "insert_log e r s =
     (case log_insert_error e of
        Some m \<Rightarrow> (Inl m, s)
      | None \<Rightarrow>
          (let l = \<lparr>log_id = next_log_id s, file_name = fileName r, file_url = fileUrl r,
                    log_status = Processing, error_message = None, extracted_data = None\<rparr>
           in (Inr l, s\<lparr>logs := logs s @ [l], next_log_id := Suc (next_log_id s)\<rparr>)))"

text \<open>
  \<^verbatim>\<open>supabase.from('parsing_logs').update({...}).eq('id', i)\<close>, when the store
  applies it: the columns named in the update are set on every row with that id. The handler
  awaits the update and never looks at its result; \<open>extract_shipment_data\<close> below is the
  handler against a store that applies every update, and \<open>store_step\<close> further down
  also has the store refuse one.
\<close>

definition update_log :: "nat \<Rightarrow> log_status \<Rightarrow> string option \<Rightarrow> json \<Rightarrow> store \<Rightarrow> store" where
  "update_log i st msg d s =
     s\<lparr>logs := map (\<lambda>l. if log_id l = i
                          then l\<lparr>log_status := st,
                                 error_message := (case msg of None \<Rightarrow> error_message l | Some m \<Rightarrow> Some m),
                                 extracted_data := Some d\<rparr>
                          else l) (logs s)\<rparr>"

text \<open>
  The columns of \<^verbatim>\<open>shipment_orders\<close> that take a value of the payload:
  \<^verbatim>\<open>customer_name text NOT NULL\<close>, \<^verbatim>\<open>address text NOT NULL\<close>,
  \<^verbatim>\<open>tracking_id text\<close>, \<^verbatim>\<open>delivery_date date\<close>,
  \<^verbatim>\<open>package_weight decimal(10,2)\<close>, \<^verbatim>\<open>notes text\<close>. What comes back
  from a column after an accepted insert: \<^verbatim>\<open>null\<close> for \<^verbatim>\<open>null\<close> and
  for a field left out (none of these columns has a default); the very string for a string put
  into a \<^verbatim>\<open>text\<close> column; and for anything else what \<open>read_back\<close> says.
\<close>

definition text_column :: "string \<Rightarrow> bool" where
  "text_column c = (c \<in> set [''customer_name'', ''address'', ''tracking_id'', ''notes''])"

fun column :: "env \<Rightarrow> string \<Rightarrow> js_value \<Rightarrow> js_value" where
  "column e c None = js_null"
| "column e c (Some JNull) = js_null"
| "column e c (Some (JStr t)) = (if text_column c then Some (JStr t) else Some (read_back e c (JStr t)))"
| "column e c (Some v) = Some (read_back e c v)"

definition stored_row :: "env \<Rightarrow> shipment_row \<Rightarrow> shipment_row" where
  "stored_row e rw =
     rw\<lparr>customer_name := column e ''customer_name'' (customer_name rw),
        address := column e ''address'' (address rw),
        tracking_id := column e ''tracking_id'' (tracking_id rw),
        delivery_date := column e ''delivery_date'' (delivery_date rw),
        package_weight := column e ''package_weight'' (package_weight rw),
        notes := column e ''notes'' (notes rw)\<rparr>"

text \<open>
  \<^verbatim>\<open>supabase.from('shipment_orders').insert({...}).select().single()\<close>: the record
  returned, and stored, is the row read back from the table.
\<close>

definition insert_shipment :: "env \<Rightarrow> shipment_row \<Rightarrow> store \<Rightarrow> (string + shipment_order) \<times> store" where
  "insert_shipment e rw s =
     (case shipment_insert_error e of
        Some m \<Rightarrow> (Inl m, s)
      | None \<Rightarrow>
          (let sh = \<lparr>shipment_id = next_shipment_id s, row = stored_row e rw\<rparr>
           in (Inr sh, s\<lparr>shipments := shipments s @ [sh],
                          next_shipment_id := Suc (next_shipment_id s)\<rparr>)))"

section \<open>The handler\<close>

text \<open>
  One constructor per place where the \<^verbatim>\<open>try\<close> block throws:
  line 52 (\<^verbatim>\<open>throw logError\<close>), the rejected \<^verbatim>\<open>fetch\<close> of line 71,
  line 89, line 114, the property read on \<^verbatim>\<open>null\<close> of line 118, line 130 and
  line 163 (\<^verbatim>\<open>throw shipmentError\<close>).
\<close>

datatype error =
    LogWriteError string
  | FetchError string
  | UpstreamError nat
  | InvalidFormat
  | NullPayload
  | MissingFields
  | StoreError string

text \<open>\<^verbatim>\<open>error.message\<close>, which the \<^verbatim>\<open>catch\<close> block returns.\<close>

fun message :: "error \<Rightarrow> string" where
  "message (LogWriteError m) = m"
| "message (FetchError m) = m"
| "message (UpstreamError st) = ''OpenAI API error: '' @ show_nat st"
| "message InvalidFormat = ''AI response was not valid JSON''"
| "message NullPayload = ''Cannot read properties of null (reading 'customer_name')''"
| "message MissingFields = ''Missing required fields: customer_name and address''"
| "message (StoreError m) = m"

text \<open>
  The test of line 118,
  \<^verbatim>\<open>!extractedData.customer_name || !extractedData.address\<close>, on a payload other
  than \<^verbatim>\<open>null\<close>.
\<close>

definition missing_required :: "json \<Rightarrow> bool" where
  "missing_required extractedData =
     (\<not> truthy (js_get extractedData ''customer_name'')
      \<or> \<not> truthy (js_get extractedData ''address''))"

text \<open>The object passed to the insert on lines 136 to 147.\<close>

definition shipment_of :: "json \<Rightarrow> request \<Rightarrow> shipment_row" where
  "shipment_of extractedData r =
     \<lparr>customer_name = js_get extractedData ''customer_name'',
      address = js_get extractedData ''address'',
      tracking_id = js_or (js_get extractedData ''tracking_id'') js_null,
      delivery_date = js_or (js_get extractedData ''delivery_date'') js_null,
      package_weight = js_or (js_get extractedData ''package_weight'') js_null,
      notes = js_or (js_get extractedData ''notes'') js_null,
      original_file_url = fileUrl r,
      original_file_name = fileName r,
      parsed_by_ai = True,
      status = ''pending''\<rparr>"

text \<open>
  The body of the \<^verbatim>\<open>try\<close> block, lines 35 to 183, for a request whose body is the
  JSON object above (the answer to a CORS preflight on line 30 touches nothing and is left
  out), run on its own against a store that applies the update it is sent: the result (the
  thrown error, or the stored shipment with the parsed payload), the store afterwards and the
  operations issued, in order.
\<close>

definition extract_shipment_data ::
  "env \<Rightarrow> request \<Rightarrow> store \<Rightarrow> (error + shipment_order \<times> json) \<times> store \<times> op list" where
  "extract_shipment_data e r s =
     (case insert_log e r s of
        (Inl logError, s1) \<Rightarrow> (Inl (LogWriteError logError), s1, [InsertLog])
      | (Inr logData, s1) \<Rightarrow>
          (case openai e of
             FetchRejected m \<Rightarrow> (Inl (FetchError m), s1, [InsertLog, Fetch])
           | Response st extractedText \<Rightarrow>
               if \<not> response_ok st then (Inl (UpstreamError st), s1, [InsertLog, Fetch])
               else
                 (case JSON_parse e extractedText of
                    None \<Rightarrow>
                      (Inl InvalidFormat,
                       update_log (log_id logData) Failed
                         (Some ''Failed to parse AI response as JSON'')
                         (JObj [(''raw_response'', JStr extractedText)]) s1,
                       [InsertLog, Fetch, UpdateLog (log_id logData)])
                  | Some extractedData \<Rightarrow>
                      if extractedData = JNull then (Inl NullPayload, s1, [InsertLog, Fetch])
                      else if missing_required extractedData then
                        (Inl MissingFields,
                         update_log (log_id logData) Failed
                           (Some ''Missing required fields: customer_name and address'')
                           extractedData s1,
                         [InsertLog, Fetch, UpdateLog (log_id logData)])
                      else
                        (case insert_shipment e (shipment_of extractedData r) s1 of
                           (Inl shipmentError, s2) \<Rightarrow>
                             (Inl (StoreError shipmentError),
                              update_log (log_id logData) Failed (Some shipmentError)
                                extractedData s2,
                              [InsertLog, Fetch, InsertShipment, UpdateLog (log_id logData)])
                         | (Inr shipmentData, s2) \<Rightarrow>
                             (Inr (shipmentData, extractedData),
                              update_log (log_id logData) Success None extractedData s2,
                              [InsertLog, Fetch, InsertShipment, UpdateLog (log_id logData)])))))"

text \<open>
  The reply: status 200 with \<^verbatim>\<open>{success: true, shipmentOrder, extractedData}\<close>, or
  the \<^verbatim>\<open>catch\<close> block's status 500 with \<^verbatim>\<open>{success: false, error}\<close>.
\<close>

datatype reply = Reply200 shipment_order json | Reply500 string

fun respond :: "error + shipment_order \<times> json \<Rightarrow> reply" where
  "respond (Inl err) = Reply500 (message err)"
| "respond (Inr (shipmentData, extractedData)) = Reply200 shipmentData extractedData"

definition serve :: "env \<Rightarrow> request \<Rightarrow> store \<Rightarrow> reply \<times> store \<times> op list" where
  "serve e r s =
     (case extract_shipment_data e r s of (res, s', ops) \<Rightarrow> (respond res, s', ops))"


text \<open>The attempts that reached \<^verbatim>\<open>success\<close>, and the status of the attempt with a given id.\<close>

definition successes :: "store \<Rightarrow> parsing_log list" where
  "successes s = filter (\<lambda>l. log_status l = Success) (logs s)"

definition validated :: "parsing_log \<Rightarrow> bool" where
  "validated l = (case extracted_data l of None \<Rightarrow> False | Some d \<Rightarrow> \<not> missing_required d)"


text \<open>
  The invariant of the store: fresh ids, as many shipments as successful attempts, and every
  successful attempt carries a payload that passed the test of line 118.
\<close>

definition consistent :: "store \<Rightarrow> bool" where
  "consistent s =
     (fresh_ids s \<and> length (shipments s) = length (successes s)
      \<and> list_all validated (successes s))"

section \<open>The handler request by request\<close>















section \<open>The upload component\<close>

text \<open>
  The component \<^verbatim>\<open>FileUpload\<close> reaches the outside world in two ways: a write to the
  file store (\<^verbatim>\<open>supabase.storage.from('shipment-files').upload\<close>) and the call of
  the edge function (\<^verbatim>\<open>supabase.functions.invoke('extract-shipment-data', {body})\<close>).
  The model lists these operations in order; the progress state and the toasts are left out.
  \<^verbatim>\<open>String.prototype.trim\<close> removes white space and line terminators from both ends:
  tab, line feed, vertical tab, form feed, carriage return, space, no-break space (U+00A0),
  U+1680, U+2000 to U+200A, U+2028, U+2029, U+202F, U+205F, U+3000 and the byte order mark
  (U+FEFF).
\<close>

datatype client_op = StorageUpload string | Invoke request

definition is_space :: "nat \<Rightarrow> bool" where
  "is_space c =
     (c \<in> set [0x0009, 0x000A, 0x000B, 0x000C, 0x000D, 0x0020, 0x00A0, 0x1680, 0x2028, 0x2029,
               0x202F, 0x205F, 0x3000, 0xFEFF]
      \<or> (0x2000 \<le> c \<and> c \<le> 0x200A))"

definition trim :: "js_string \<Rightarrow> js_string" where
  "trim s = rev (dropWhile is_space (rev (dropWhile is_space s)))"

text \<open>
  \<^verbatim>\<open>extractDataFromFile(fileContent, fileName, fileUrl?)\<close> builds the body with
  \<^verbatim>\<open>fileUrl: fileUrl || null\<close>; \<open>None\<close> as argument is the omitted
  parameter, \<open>None\<close> in the body is \<^verbatim>\<open>null\<close>.
\<close>

definition extractDataFromFile :: "js_string \<Rightarrow> string \<Rightarrow> string option \<Rightarrow> request" where
  "extractDataFromFile content name url =
     \<lparr>fileContent = content, fileName = name,
      fileUrl = (case url of None \<Rightarrow> None | Some u \<Rightarrow> if u = [] then None else Some u)\<rparr>"

text \<open>
  \<^verbatim>\<open>handleEmailExtraction\<close>, with the clock (\<^verbatim>\<open>Date.now()\<close>) as a
  parameter: on blank content the handler returns before anything reaches the outside world.
\<close>

definition handleEmailExtraction :: "nat \<Rightarrow> js_string \<Rightarrow> client_op list" where
  "handleEmailExtraction now emailContent =
     (if trim emailContent = [] then []
      else [Invoke (extractDataFromFile emailContent (''email-'' @ show_nat now @ ''.txt'') None)])"

text \<open>
  \<^verbatim>\<open>handleFileUpload\<close>: \<^verbatim>\<open>uploadFile\<close> writes the file under the key
  \<^verbatim>\<open>`${Date.now()}-${file.name}`\<close> and throws when the store rejects the write;
  \<^verbatim>\<open>readFileContent\<close> gives the file's text or rejects (\<open>None\<close>); then the
  edge function is called with the text, the file's own name and the public URL of the key.
\<close>

record js_file =
  name :: string
  text_content :: "js_string option"

definition handleFileUpload ::
  "nat \<Rightarrow> js_file \<Rightarrow> string option \<Rightarrow> (string \<Rightarrow> string) \<Rightarrow> client_op list" where
  "handleFileUpload now f upload_error getPublicUrl =
     (let filePath = show_nat now @ ''-'' @ name f in
      case upload_error of
        Some m \<Rightarrow> [StorageUpload filePath]
      | None \<Rightarrow>
          (case text_content f of
             None \<Rightarrow> [StorageUpload filePath]
           | Some content \<Rightarrow>
               [StorageUpload filePath,
                Invoke (extractDataFromFile content (name f) (Some (getPublicUrl filePath)))]))"

fun is_upload :: "client_op \<Rightarrow> bool" where
  "is_upload (StorageUpload k) = True"
| "is_upload (Invoke b) = False"

section \<open>Scenarios\<close>

text \<open>
  Concrete inputs on which the theorems below are evaluated: a request, and the answers of
  \<^verbatim>\<open>JSON.parse\<close> on five texts (a full payload, a payload without customer name,
  a payload with weight zero and an empty tracking id, the text \<^verbatim>\<open>null\<close>, and
  anything else, which is not JSON).
\<close>

definition scenario_request :: request where
  "scenario_request =
     \<lparr>fileContent = ascii ''Ship to Jane Doe, 12 Oak St, tracking XZ100, 2.5kg'',
      fileName = ''order.txt'', fileUrl = Some ''https://files.example/1-order.txt''\<rparr>"

definition jane_text :: string where
  \<open>jane_text = ''{"customer_name":"Jane Doe","address":"12 Oak St","tracking_id":"XZ100","package_weight":2.5}''\<close>

definition jane_payload :: json where
  "jane_payload =
     JObj [(''customer_name'', JStr ''Jane Doe''), (''address'', JStr ''12 Oak St''),
           (''tracking_id'', JStr ''XZ100''), (''package_weight'', JNum (5 / 2))]"

definition nameless_text :: string where
  \<open>nameless_text = ''{"address":"12 Oak St"}''\<close>

definition nameless_payload :: json where
  "nameless_payload = JObj [(''address'', JStr ''12 Oak St'')]"

definition zero_weight_text :: string where
  \<open>zero_weight_text = ''{"customer_name":"Jane Doe","address":"12 Oak St","tracking_id":"","package_weight":0}''\<close>

definition zero_weight_payload :: json where
  "zero_weight_payload =
     JObj [(''customer_name'', JStr ''Jane Doe''), (''address'', JStr ''12 Oak St''),
           (''tracking_id'', JStr []), (''package_weight'', JNum 0)]"

definition scenario_parse :: "string \<Rightarrow> json option" where
  "scenario_parse t =
     (if t = jane_text then Some jane_payload
      else if t = nameless_text then Some nameless_payload
      else if t = zero_weight_text then Some zero_weight_payload
      else if t = ''null'' then Some JNull
      else None)"

text \<open>A store whose columns give every value back as it was passed.\<close>

definition scenario_read_back :: "string \<Rightarrow> json \<Rightarrow> json" where
  "scenario_read_back c v = v"

definition scenario_env :: "upstream \<Rightarrow> env" where
  "scenario_env u =
     \<lparr>log_insert_error = None, openai = u, JSON_parse = scenario_parse,
      shipment_insert_error = None, read_back = scenario_read_back\<rparr>"


section \<open>The store after one call, path by path\<close>

lemma update_fresh:
  "fresh_ids s \<Longrightarrow> map (\<lambda>l. if log_id l = next_log_id s then f l else l) (logs s) = logs s"
  by (rule map_idI) (auto simp: fresh_ids_def list_all_iff)


lemma update_new_log_shipment:
  assumes "fresh_ids s" and "log_id l = next_log_id s"
  shows "update_log (next_log_id s) st msg d
           (s\<lparr>logs := logs s @ [l], next_log_id := Suc (next_log_id s),
              shipments := shs, next_shipment_id := n\<rparr>)
         = s\<lparr>logs := logs s @ [l\<lparr>log_status := st,
                  error_message := (case msg of None \<Rightarrow> error_message l | Some m \<Rightarrow> Some m),
                  extracted_data := Some d\<rparr>],
              next_log_id := Suc (next_log_id s), shipments := shs, next_shipment_id := n\<rparr>"
  using assms by (simp add: update_log_def update_fresh)

lemma fresh_ids_empty: "fresh_ids empty_store"
  by (simp add: fresh_ids_def empty_store_def)

lemma missing_required_null: "missing_required JNull"
  by (simp add: missing_required_def)








lemma success_general:
  assumes "fresh_ids s" and "log_insert_error e = None"
    and "openai e = Response st answer" and "response_ok st"
    and "JSON_parse e answer = Some d" and "\<not> missing_required d"
    and "shipment_insert_error e = None"
  shows "extract_shipment_data e r s =
    (Inr (\<lparr>shipment_id = next_shipment_id s, row = stored_row e (shipment_of d r)\<rparr>, d),
     s\<lparr>logs := logs s @ [\<lparr>log_id = next_log_id s, file_name = fileName r, file_url = fileUrl r,
          log_status = Success, error_message = None, extracted_data = Some d\<rparr>],
        next_log_id := Suc (next_log_id s),
        shipments := shipments s @
          [\<lparr>shipment_id = next_shipment_id s, row = stored_row e (shipment_of d r)\<rparr>],
        next_shipment_id := Suc (next_shipment_id s)\<rparr>,
     [InsertLog, Fetch, InsertShipment, UpdateLog (next_log_id s)])"
proof -
  have "d \<noteq> JNull" using assms(6) missing_required_null by auto
  then show ?thesis
    using assms
    by (simp add: extract_shipment_data_def insert_log_def insert_shipment_def Let_def
        update_new_log_shipment)
qed


section \<open>Calls one at a time, every update applied\<close>




lemma consistent_iff:
  assumes "consistent s"
  shows "(shipments s \<noteq> []) = (\<exists>l \<in> set (logs s). log_status l = Success \<and> validated l)"
proof -
  have len: "length (shipments s) = length (successes s)"
    and val: "list_all validated (successes s)"
    using assms by (simp_all add: consistent_def)
  have "(shipments s \<noteq> []) = (successes s \<noteq> [])"
    using len by (metis length_0_conv)
  also have "\<dots> = (\<exists>l \<in> set (logs s). log_status l = Success)"
    by (auto simp: successes_def filter_empty_conv)
  also have "\<dots> = (\<exists>l \<in> set (logs s). log_status l = Success \<and> validated l)"
    using val by (auto simp: successes_def list_all_iff)
  finally show ?thesis .
qed






section \<open>Overlapping calls and refused updates\<close>


























section \<open>The extraction service\<close>

text \<open>
  C7. When the store rejects the insert of the initial attempt, the handler throws the
  store's error at once: the store is unchanged (no attempt, no shipment), the insert of the
  attempt is the only operation issued (no outbound call, no shipment insert), and the caller
  gets status 500 with the store's message.
\<close>

theorem log_write_error_aborts:
  assumes "log_insert_error e = Some m"
  shows "extract_shipment_data e r s = (Inl (LogWriteError m), s, [InsertLog])
         \<and> serve e r s = (Reply500 m, s, [InsertLog])"
  using assms by (simp add: extract_shipment_data_def serve_def insert_log_def)

theorem log_write_error_aborts_witness:
  "log_insert_error (scenario_env (Response 200 jane_text)
      \<lparr>log_insert_error := Some ''connection refused''\<rparr>) = Some ''connection refused''
   \<and> serve (scenario_env (Response 200 jane_text)
      \<lparr>log_insert_error := Some ''connection refused''\<rparr>) scenario_request empty_store
       = (Reply500 ''connection refused'', empty_store, [InsertLog])"
  using log_write_error_aborts
    [of "scenario_env (Response 200 jane_text)\<lparr>log_insert_error := Some ''connection refused''\<rparr>"
        "''connection refused''" scenario_request empty_store]
  by (simp add: scenario_env_def)

text \<open>
  C1. An exit path that leaves the attempt as it was created: the outbound call answers with
  status 500, the handler throws on line 89, and the store afterwards holds the attempt with
  status \<^verbatim>\<open>processing\<close>; no update of the attempt is among the operations issued.
\<close>

theorem upstream_failure_leaves_processing:
  "extract_shipment_data (scenario_env (Response 500 [])) scenario_request empty_store =
     (Inl (UpstreamError 500),
      \<lparr>logs = [\<lparr>log_id = 0, file_name = ''order.txt'',
                 file_url = Some ''https://files.example/1-order.txt'',
                 log_status = Processing, error_message = None, extracted_data = None\<rparr>],
       next_log_id = 1, shipments = [], next_shipment_id = 0\<rparr>,
      [InsertLog, Fetch])"
  by (simp add: extract_shipment_data_def insert_log_def scenario_env_def scenario_request_def
      empty_store_def response_ok_def Let_def)

text \<open>
  C2. The outbound call answers with status 429: the caller gets status 500 with the message
  \<^verbatim>\<open>OpenAI API error: 429\<close> after a single outbound call, and the attempt is not
  updated: its status stays \<^verbatim>\<open>processing\<close> and its error message stays empty.
\<close>

theorem upstream_error_not_recorded:
  "serve (scenario_env (Response 429 [])) scenario_request empty_store =
     (Reply500 ''OpenAI API error: 429'',
      \<lparr>logs = [\<lparr>log_id = 0, file_name = ''order.txt'',
                 file_url = Some ''https://files.example/1-order.txt'',
                 log_status = Processing, error_message = None, extracted_data = None\<rparr>],
       next_log_id = 1, shipments = [], next_shipment_id = 0\<rparr>,
      [InsertLog, Fetch])"
  by (simp add: serve_def extract_shipment_data_def insert_log_def scenario_env_def
      scenario_request_def empty_store_def response_ok_def show_nat.simps digit_char_def
      Let_def)




text \<open>
  C4. A parsed payload in which \<^verbatim>\<open>customer_name\<close> is missing and on which the
  handler does not answer with the missing-fields error: the model's answer is the text
  \<^verbatim>\<open>null\<close>, the payload is \<^verbatim>\<open>null\<close>, the property read of line 118 throws
  a TypeError, the caller gets status 500 with the TypeError's message, no update of the
  attempt is issued and the attempt keeps the status \<^verbatim>\<open>processing\<close>.
\<close>

theorem null_payload_not_validated:
  "serve (scenario_env (Response 200 ''null'')) scenario_request empty_store =
     (Reply500 ''Cannot read properties of null (reading 'customer_name')'',
      \<lparr>logs = [\<lparr>log_id = 0, file_name = ''order.txt'',
                 file_url = Some ''https://files.example/1-order.txt'',
                 log_status = Processing, error_message = None, extracted_data = None\<rparr>],
       next_log_id = 1, shipments = [], next_shipment_id = 0\<rparr>,
      [InsertLog, Fetch])"
  by (simp add: serve_def extract_shipment_data_def insert_log_def scenario_env_def
      scenario_parse_def scenario_request_def empty_store_def response_ok_def Let_def
      jane_text_def nameless_text_def zero_weight_text_def)





text \<open>
  C10. For every parsed payload that passed the test of line 118, when the store accepts the
  shipment insert: the handler returns the shipment stored last, and each of tracking id,
  delivery date, weight and notes whose value in the payload is falsy (0, the empty string,
  \<^verbatim>\<open>false\<close>, \<^verbatim>\<open>null\<close>, or absent) is stored as \<^verbatim>\<open>null\<close>.
\<close>

theorem falsy_optional_stored_as_null:
  assumes "fresh_ids s" and "log_insert_error e = None"
    and "openai e = Response st answer" and "response_ok st"
    and "JSON_parse e answer = Some d" and "\<not> missing_required d"
    and "shipment_insert_error e = None"
    and "extract_shipment_data e r s = (res, s', ops)"
  shows "res = Inr (last (shipments s'), d)
   \<and> shipments s' = shipments s @ [last (shipments s')]
   \<and> (\<not> truthy (js_get d ''tracking_id'') \<longrightarrow> tracking_id (row (last (shipments s'))) = js_null)
   \<and> (\<not> truthy (js_get d ''delivery_date'') \<longrightarrow> delivery_date (row (last (shipments s'))) = js_null)
   \<and> (\<not> truthy (js_get d ''package_weight'') \<longrightarrow> package_weight (row (last (shipments s'))) = js_null)
   \<and> (\<not> truthy (js_get d ''notes'') \<longrightarrow> notes (row (last (shipments s'))) = js_null)"
  using success_general [OF assms(1-7), of r] assms(8)
  by (auto simp: shipment_of_def js_or_def stored_row_def)

theorem falsy_optional_stored_as_null_witness:
  "js_get zero_weight_payload ''package_weight'' = Some (JNum 0)
   \<and> js_get zero_weight_payload ''tracking_id'' = Some (JStr [])
   \<and> package_weight (row (last (shipments (fst (snd (extract_shipment_data
         (scenario_env (Response 200 zero_weight_text)) scenario_request empty_store))))))
       = js_null
   \<and> tracking_id (row (last (shipments (fst (snd (extract_shipment_data
         (scenario_env (Response 200 zero_weight_text)) scenario_request empty_store))))))
       = js_null"
proof -
  have h1: "fresh_ids empty_store" by (rule fresh_ids_empty)
  have h2: "log_insert_error (scenario_env (Response 200 zero_weight_text)) = None"
    by (simp add: scenario_env_def)
  have h3: "openai (scenario_env (Response 200 zero_weight_text)) = Response 200 zero_weight_text"
    by (simp add: scenario_env_def)
  have h4: "response_ok 200" by (simp add: response_ok_def)
  have h5: "JSON_parse (scenario_env (Response 200 zero_weight_text)) zero_weight_text
              = Some zero_weight_payload"
    by (simp add: scenario_env_def scenario_parse_def zero_weight_text_def jane_text_def
        nameless_text_def)
  have h6: "\<not> missing_required zero_weight_payload"
    by (simp add: missing_required_def zero_weight_payload_def)
  have h7: "shipment_insert_error (scenario_env (Response 200 zero_weight_text)) = None"
    by (simp add: scenario_env_def)
  have h8: "extract_shipment_data (scenario_env (Response 200 zero_weight_text))
              scenario_request empty_store
     = (fst (extract_shipment_data (scenario_env (Response 200 zero_weight_text))
              scenario_request empty_store),
        fst (snd (extract_shipment_data (scenario_env (Response 200 zero_weight_text))
              scenario_request empty_store)),
        snd (snd (extract_shipment_data (scenario_env (Response 200 zero_weight_text))
              scenario_request empty_store)))"
    by simp
  have p: "js_get zero_weight_payload ''package_weight'' = Some (JNum 0)"
    and t: "js_get zero_weight_payload ''tracking_id'' = Some (JStr [])"
    by (simp_all add: zero_weight_payload_def)
  show ?thesis
    using falsy_optional_stored_as_null [OF h1 h2 h3 h4 h5 h6 h7 h8] p t by simp
qed




section \<open>The upload component's side of the call\<close>

text \<open>
  C9, as stated, fails on blank text: three spaces reach neither the file store nor the edge
  function, and no file name is made.
\<close>

theorem blank_email_not_extracted:
  "handleEmailExtraction 1756692000000 (ascii ''   '') = []"
  by (simp add: handleEmailExtraction_def trim_def is_space_def ascii_def)

text \<open>
  C9, amended. For every pasted text: no write to the file store is issued. When the text is
  not blank (something is left after \<^verbatim>\<open>trim\<close>), exactly one call of the edge function
  is issued, with the text as content, the file name \<^verbatim>\<open>email-<clock>.txt\<close> made from
  the current time, and \<^verbatim>\<open>null\<close> as file reference. When the text is blank, nothing
  is issued at all.
\<close>

theorem email_extraction_request:
  "\<not> list_ex is_upload (handleEmailExtraction now emailContent)
   \<and> (trim emailContent \<noteq> [] \<longrightarrow>
        handleEmailExtraction now emailContent =
          [Invoke \<lparr>fileContent = emailContent,
                   fileName = ''email-'' @ show_nat now @ ''.txt'',
                   fileUrl = None\<rparr>])
   \<and> (trim emailContent = [] \<longrightarrow> handleEmailExtraction now emailContent = [])"
  by (simp add: handleEmailExtraction_def extractDataFromFile_def)

theorem email_extraction_request_witness:
  "trim (ascii ''Ship to Jane Doe, 12 Oak St'') \<noteq> []
   \<and> handleEmailExtraction 1756692000000 (ascii ''Ship to Jane Doe, 12 Oak St'') =
       [Invoke \<lparr>fileContent = ascii ''Ship to Jane Doe, 12 Oak St'',
                fileName = ''email-1756692000000.txt'', fileUrl = None\<rparr>]"
proof -
  have h: "trim (ascii ''Ship to Jane Doe, 12 Oak St'') \<noteq> []"
    by (simp add: trim_def is_space_def ascii_def)
  show ?thesis
    using email_extraction_request [of 1756692000000 "ascii ''Ship to Jane Doe, 12 Oak St''"] h
    by (simp add: show_nat.simps digit_char_def)
qed

text \<open>
  Text made of white space beyond ASCII is blank too: a no-break space, an em space and a byte
  order mark reach nothing.
\<close>

lemma unicode_blank_not_extracted:
  "handleEmailExtraction now [0x00A0, 0x2003, 0xFEFF] = []"
  by (simp add: handleEmailExtraction_def trim_def is_space_def)

text \<open>
  By contrast, an uploaded file is written to the file store first, under a key made from the
  clock and the file's name, and the edge function gets the public URL of that key.
\<close>

lemma file_upload_writes_first:
  "\<exists>rest. handleFileUpload now f upload_error getPublicUrl
           = StorageUpload (show_nat now @ ''-'' @ name f) # rest"
  by (simp add: handleFileUpload_def Let_def split: option.splits)

lemma file_upload_request:
  assumes "upload_error = None" and "text_content f = Some content" and "getPublicUrl key \<noteq> []"
    and "key = show_nat now @ ''-'' @ name f"
  shows "handleFileUpload now f upload_error getPublicUrl =
           [StorageUpload key,
            Invoke \<lparr>fileContent = content, fileName = name f,
                    fileUrl = Some (getPublicUrl key)\<rparr>]"
  using assms by (simp add: handleFileUpload_def extractDataFromFile_def Let_def)

end
